theory Spec2Isabelle
  imports Main "HOL-Library.Word"
begin

unbundle bit_operations_syntax

section \<open>Win32 and WinSock interface\<close>

text \<open>
  The event loop of \<^verbatim>\<open>win32_platform_event_loop.cpp\<close> talks to the operating system
  through a handful of Win32 / WinSock calls. Their constants and result codes come from
  the Windows SDK headers, which are not part of the repository; they are written down
  here with the values the SDK gives them.
\<close>

type_synonym DWORD = "32 word"
type_synonym UINT = "32 word"
type_synonym WPARAM = "64 word"
type_synonym LPARAM = "64 word"
type_synonym HANDLE = nat
type_synonym HWND = nat

definition WAIT_OBJECT_0 :: DWORD where
  "WAIT_OBJECT_0 = 0"

definition WAIT_TIMEOUT :: DWORD where
  "WAIT_TIMEOUT = 258"

definition INFINITE :: DWORD where
  "INFINITE = 0xFFFFFFFF"

definition WM_QUIT :: UINT where
  "WM_QUIT = 0x0012"

definition WM_USER :: UINT where
  "WM_USER = 0x0400"

text \<open>\<^verbatim>\<open>enum { WM_KD_SOCKETEVENT = WM_USER };\<close>\<close>

definition WM_KD_SOCKETEVENT :: UINT where
  "WM_KD_SOCKETEVENT = WM_USER"

text \<open>The network event bits of \<^verbatim>\<open>WSAAsyncSelect\<close> (winsock2.h).\<close>

definition FD_READ :: "32 word" where
  "FD_READ = 0x01"

definition FD_WRITE :: "32 word" where
  "FD_WRITE = 0x02"

definition FD_OOB :: "32 word" where
  "FD_OOB = 0x04"

definition FD_ACCEPT :: "32 word" where
  "FD_ACCEPT = 0x08"

definition FD_CONNECT :: "32 word" where
  "FD_CONNECT = 0x10"

definition FD_CLOSE :: "32 word" where
  "FD_CLOSE = 0x20"

text \<open>
  \<^verbatim>\<open>WSAGETSELECTEVENT(lParam)\<close> is \<^verbatim>\<open>LOWORD(lParam)\<close> and
  \<^verbatim>\<open>WSAGETSELECTERROR(lParam)\<close> is \<^verbatim>\<open>HIWORD(lParam)\<close>; both are 16-bit values
  stored into an \<^verbatim>\<open>int\<close>.
\<close>

definition WSAGETSELECTEVENT :: "LPARAM \<Rightarrow> 32 word" where
  "WSAGETSELECTEVENT lparam = ucast (lparam AND 0xFFFF)"

definition WSAGETSELECTERROR :: "LPARAM \<Rightarrow> 32 word" where
  "WSAGETSELECTERROR lparam = ucast (drop_bit 16 lparam AND 0xFFFF)"

text \<open>\<^verbatim>\<open>const int sockId = wparam;\<close> keeps the low 32 bits, read as a signed value.\<close>

definition sockId_of :: "WPARAM \<Rightarrow> int" where
  "sockId_of wparam = sint (ucast wparam :: 32 word)"

record MSG =
  hwnd :: "HWND option"
  message :: UINT
  wParam :: WPARAM
  lParam :: LPARAM

section \<open>Observers and the descriptor interest record\<close>

text \<open>
  Modelled from the spec: the declaration of \<^verbatim>\<open>FileDescriptorNotifier\<close>
  (file_descriptor_notifier.h) is not among the sources. The three interest kinds are
  \<open>Read\<close>, \<open>Write\<close> and \<open>Exception\<close>; the source indexes the slot array with
  \<^verbatim>\<open>static_cast<size_t>(type)\<close> and reads \<^verbatim>\<open>events[0]\<close> as the read slot,
  \<^verbatim>\<open>events[1]\<close> as the write slot and \<^verbatim>\<open>events[2]\<close> as the exception slot.
\<close>

datatype NotificationType = Read | Write | Exception

text \<open>
  An observer object. A \<^verbatim>\<open>FileDescriptorNotifier *\<close> is an
  \<open>FileDescriptorNotifier option\<close>, \<open>None\<close> being the null pointer; \<open>address\<close>
  tells apart two observers with the same descriptor and kind.
\<close>

record FileDescriptorNotifier =
  address :: nat
  fileDescriptor :: int
  type :: NotificationType

text \<open>
  Modelled from the spec: \<^verbatim>\<open>NotifierSet\<close> is declared in
  win32_platform_event_loop.h, which is not among the sources. It holds exactly three
  slots indexed by interest kind, each either empty or holding a reference to exactly one
  registered observer; a default-constructed record has three empty slots, and
  \<^verbatim>\<open>isEmpty()\<close> says that all three slots are empty.
\<close>

record NotifierSet =
  events :: "NotificationType \<Rightarrow> FileDescriptorNotifier option"

definition NotifierSet_default :: NotifierSet where
  "NotifierSet_default = \<lparr>events = (\<lambda>_. None)\<rparr>"

definition isEmpty :: "NotifierSet \<Rightarrow> bool" where
  "isEmpty ns \<longleftrightarrow> events ns Read = None \<and> events ns Write = None \<and> events ns Exception = None"

section \<open>The loop and its surroundings\<close>

datatype level = Warn | Error | Critical

datatype EventType = Notifier

text \<open>Everything the loop does that the outside can see, in the order it happens.\<close>

datatype effect =
    Log level string
  | WSAAsyncSelectCall int "HWND option" UINT "32 word"
  | WaitCall "HANDLE list" DWORD
  | ResetEventCall "HANDLE option"
  | SetEventCall HANDLE
  | Translate MSG
  | Dispatch MSG
  | DefWindowProcCall "HWND option" UINT
  | Deliver nat FileDescriptorNotifier EventType

text \<open>
  The members of \<^verbatim>\<open>Win32PlatformEventLoop\<close> keep their names. \<open>m_notifiers\<close> is the
  registry, a map from descriptor to record (\<^verbatim>\<open>m_notifiers[fd]\<close>, \<^verbatim>\<open>erase(fd)\<close>).
  The other fields are the part of the world the loop acts on: the calling thread's
  message queue, the state of the manual-reset event behind \<open>m_wakeUpEvent\<close>, the
  results the coming \<^verbatim>\<open>WSAAsyncSelect\<close> calls will return (an exhausted list means
  success), and the trace of effects.
\<close>

record state =
  m_wakeUpEvent :: "HANDLE option"
  m_msgWindow :: "HWND option"
  m_notifiers :: "int \<rightharpoonup> NotifierSet"
  m_postman :: "nat option"
  queue :: "MSG list"
  signaled :: bool
  wsaResults :: "int list"
  trace :: "effect list"

definition emit :: "effect \<Rightarrow> state \<Rightarrow> state" where
  "emit e s = s\<lparr>trace := trace s @ [e]\<rparr>"

text \<open>
  The constructor. \<open>createEvent\<close>, \<open>atom\<close> and \<open>createWindow\<close> are what
  \<^verbatim>\<open>CreateEvent\<close>, \<^verbatim>\<open>RegisterClass\<close> and \<^verbatim>\<open>CreateWindow\<close> return; a failure is
  logged and construction goes on. The event is created manual-reset and not signaled.
\<close>

definition Win32PlatformEventLoop :: "HANDLE option \<Rightarrow> bool \<Rightarrow> HWND option \<Rightarrow> state" where
  "Win32PlatformEventLoop createEvent atom createWindow =
    (let s0 = \<lparr>m_wakeUpEvent = createEvent, m_msgWindow = None, m_notifiers = Map.empty,
                m_postman = None, queue = [], signaled = False, wsaResults = [], trace = []\<rparr>;
         s1 = (if createEvent = None then emit (Log Critical ''Failed to create wake up event'') s0 else s0);
         s2 = (if \<not> atom then emit (Log Critical ''Failed to register message window class'') s1 else s1);
         s3 = s2\<lparr>m_msgWindow := createWindow\<rparr>
     in if createWindow = None then emit (Log Critical ''Failed to create window for socket events'') s3 else s3)"

definition setPostman :: "nat option \<Rightarrow> state \<Rightarrow> state" where
  "setPostman p s = s\<lparr>m_postman := p\<rparr>"

subsection \<open>The registry\<close>

text \<open>
  \<^verbatim>\<open>m_notifiers[fd]\<close>: the subscript operator of the standard map inserts a
  default-constructed record when the key is absent and returns a reference to the
  record under the key.
\<close>

definition subscript :: "(int \<rightharpoonup> NotifierSet) \<Rightarrow> int \<Rightarrow> (int \<rightharpoonup> NotifierSet) \<times> NotifierSet" where
  "subscript m fd =
    (case m fd of
       None \<Rightarrow> (m(fd \<mapsto> NotifierSet_default), NotifierSet_default)
     | Some ns \<Rightarrow> (m, ns))"

definition typeToWsaEvents :: "NotificationType \<Rightarrow> 32 word" where
  "typeToWsaEvents t =
    (case t of
       Read \<Rightarrow> FD_READ OR FD_CLOSE OR FD_ACCEPT
     | Write \<Rightarrow> FD_WRITE OR FD_CONNECT
     | Exception \<Rightarrow> FD_OOB)"

text \<open>The loop over \<^verbatim>\<open>types[] = {Read, Write, Exception}\<close> that builds the mask.\<close>

fun eventsToSubscribe_loop :: "NotificationType list \<Rightarrow> NotifierSet \<Rightarrow> 32 word \<Rightarrow> 32 word" where
  "eventsToSubscribe_loop [] notifiers acc = acc"
| "eventsToSubscribe_loop (t # ts) notifiers acc =
    eventsToSubscribe_loop ts notifiers
      (if events notifiers t \<noteq> None then acc OR typeToWsaEvents t else acc)"

definition eventsToSubscribe :: "NotifierSet \<Rightarrow> 32 word" where
  "eventsToSubscribe notifiers = eventsToSubscribe_loop [Read, Write, Exception] notifiers 0"

text \<open>
  \<^verbatim>\<open>registerWithWSAAsyncSelect\<close>: one \<^verbatim>\<open>WSAAsyncSelect\<close> call with the combined mask;
  its result is the next one of \<open>wsaResults\<close>.
\<close>

definition registerWithWSAAsyncSelect :: "int \<Rightarrow> NotifierSet \<Rightarrow> state \<Rightarrow> bool \<times> state" where
  "registerWithWSAAsyncSelect fd notifiers s =
    (let s1 = emit (WSAAsyncSelectCall fd (m_msgWindow s) WM_KD_SOCKETEVENT (eventsToSubscribe notifiers)) s;
         result = (case wsaResults s1 of [] \<Rightarrow> 0 | r # _ \<Rightarrow> r);
         s2 = s1\<lparr>wsaResults := tl (wsaResults s1)\<rparr>
     in if result \<noteq> 0
        then (False, emit (Log Error ''Failed to register notifier for socket = {}. Error = {}'') s2)
        else (True, s2))"

definition registerNotifier :: "FileDescriptorNotifier option \<Rightarrow> state \<Rightarrow> bool \<times> state" where
  "registerNotifier notifier s =
    (case notifier of
       None \<Rightarrow> (False, s)
     | Some n \<Rightarrow>
        if fileDescriptor n < 0
        then (False, emit (Log Warn ''Attempting to register invalid notifier socket = {}'') s)
        else
          let (m1, notifierSet) = subscript (m_notifiers s) (fileDescriptor n);
              s1 = s\<lparr>m_notifiers := m1\<rparr>;
              backup = notifierSet
          in if events notifierSet (type n) \<noteq> None
             then (False, s1)
             else
               let notifierSet' = notifierSet\<lparr>events := (events notifierSet)(type n := Some n)\<rparr>;
                   s2 = s1\<lparr>m_notifiers := (m_notifiers s1)(fileDescriptor n \<mapsto> notifierSet')\<rparr>;
                   (registered, s3) = registerWithWSAAsyncSelect (fileDescriptor n) notifierSet' s2
               in if \<not> registered
                  then
                    let (_, s4) = registerWithWSAAsyncSelect (fileDescriptor n) backup s3;
                        s5 = s4\<lparr>m_notifiers := (m_notifiers s4)(fileDescriptor n \<mapsto> backup)\<rparr>;
                        s6 = (if isEmpty backup
                              then s5\<lparr>m_notifiers := (m_notifiers s5)(fileDescriptor n := None)\<rparr>
                              else s5)
                    in (registered, s6)
                  else (registered, s3))"

definition unregisterNotifier :: "FileDescriptorNotifier option \<Rightarrow> state \<Rightarrow> bool \<times> state" where
  "unregisterNotifier notifier s =
    (case notifier of
       None \<Rightarrow> (False, s)
     | Some n \<Rightarrow>
        let (m1, notifierSet) = subscript (m_notifiers s) (fileDescriptor n);
            s1 = s\<lparr>m_notifiers := m1\<rparr>
        in if events notifierSet (type n) = None
           then (False, s1)
           else
             let notifierSet' = notifierSet\<lparr>events := (events notifierSet)(type n := None)\<rparr>;
                 s2 = s1\<lparr>m_notifiers := (m_notifiers s1)(fileDescriptor n \<mapsto> notifierSet')\<rparr>;
                 (_, s3) = registerWithWSAAsyncSelect (fileDescriptor n) notifierSet' s2;
                 s4 = (if isEmpty notifierSet'
                       then s3\<lparr>m_notifiers := (m_notifiers s3)(fileDescriptor n := None)\<rparr>
                       else s3)
             in (True, s4))"

subsection \<open>Readiness dispatch\<close>

text \<open>
  \<^verbatim>\<open>m_postman->deliverEvent(notifierSet.events[i], &ev)\<close> with a fresh
  \<^verbatim>\<open>NotifierEvent\<close>, whose type is \<^verbatim>\<open>Event::Type::Notifier\<close>.
\<close>

definition deliverEvent :: "nat \<Rightarrow> FileDescriptorNotifier option \<Rightarrow> state \<Rightarrow> state" where
  "deliverEvent postman target s =
    (case target of None \<Rightarrow> s | Some n \<Rightarrow> emit (Deliver postman n Notifier) s)"

definition handleSocketMessage :: "WPARAM \<Rightarrow> LPARAM \<Rightarrow> state \<Rightarrow> state" where
  "handleSocketMessage wparam lparam s =
    (let sockId = sockId_of wparam;
         err = WSAGETSELECTERROR lparam;
         op = WSAGETSELECTEVENT lparam
     in if err \<noteq> 0
        then emit (Log Warn ''Error when receiving message on socket {}, Err = {}'') s
        else
          case m_postman s of
            None \<Rightarrow> emit (Log Warn ''No postman set. Cannot deliver events'') s
          | Some postman \<Rightarrow>
              let (m1, notifierSet) = subscript (m_notifiers s) sockId;
                  s1 = s\<lparr>m_notifiers := m1\<rparr>
              in if op = FD_READ \<or> op = FD_CLOSE \<or> op = FD_ACCEPT
                 then deliverEvent postman (events notifierSet Read) s1
                 else if op = FD_WRITE \<or> op = FD_CONNECT
                 then deliverEvent postman (events notifierSet Write) s1
                 else if op = FD_OOB
                 then deliverEvent postman (events notifierSet Exception) s1
                 else s1)"

text \<open>
  The window procedure of the message-only window; \<^verbatim>\<open>GWLP_USERDATA\<close> of that window
  points back to the loop.
\<close>

definition messageWindowProc :: "HWND option \<Rightarrow> UINT \<Rightarrow> WPARAM \<Rightarrow> LPARAM \<Rightarrow> state \<Rightarrow> state" where
  "messageWindowProc h msgId wp lp s =
    (if msgId = WM_KD_SOCKETEVENT
     then handleSocketMessage wp lp s
     else emit (DefWindowProcCall h msgId) s)"

subsection \<open>Waiting and waking\<close>

text \<open>
  \<^verbatim>\<open>PeekMessage(&msg, 0, 0, 0, PM_REMOVE)\<close>: takes the first message of the queue when
  there is one, and never blocks.
\<close>

definition PeekMessage :: "state \<Rightarrow> MSG option \<times> state" where
  "PeekMessage s =
    (case queue s of
       [] \<Rightarrow> (None, s)
     | m # ms \<Rightarrow> (Some m, s\<lparr>queue := ms\<rparr>))"

text \<open>
  \<^verbatim>\<open>DispatchMessage\<close> calls the window procedure of the message's window: the loop's
  own \<open>messageWindowProc\<close> for the message-only window, somebody else's otherwise.
\<close>

definition DispatchMessage :: "MSG \<Rightarrow> state \<Rightarrow> state" where
  "DispatchMessage msg s =
    (let s1 = emit (Dispatch msg) s
     in if hwnd msg \<noteq> None \<and> hwnd msg = m_msgWindow s
        then messageWindowProc (hwnd msg) (message msg) (wParam msg) (lParam msg) s1
        else s1)"

text \<open>
  What goes on while the loop thread is blocked in the wait: another thread calls
  \<open>wakeUp\<close>, or messages are posted to the queue, or nothing at all.
\<close>

datatype activity = WakeUp | Input "MSG list" | Quiet

text \<open>\<^verbatim>\<open>SetEvent\<close> and \<^verbatim>\<open>ResetEvent\<close> on the wake-up event.\<close>

definition SetEvent :: "HANDLE \<Rightarrow> state \<Rightarrow> state" where
  "SetEvent h s = (emit (SetEventCall h) s)\<lparr>signaled := True\<rparr>"

definition ResetEvent :: "HANDLE option \<Rightarrow> state \<Rightarrow> state" where
  "ResetEvent h s =
    (let s1 = emit (ResetEventCall h) s
     in if h = None then s1 else s1\<lparr>signaled := False\<rparr>)"

text \<open>
  \<^verbatim>\<open>wakeUp\<close>; \<open>ok\<close> is whether \<^verbatim>\<open>SetEvent\<close> succeeds.
\<close>

definition wakeUp :: "bool \<Rightarrow> state \<Rightarrow> state" where
  "wakeUp ok s =
    (case m_wakeUpEvent s of
       None \<Rightarrow> s
     | Some h \<Rightarrow>
        if ok then SetEvent h s
        else emit (Log Critical ''Failed to signal wake up event'') (emit (SetEventCall h) s))"

text \<open>
  \<^verbatim>\<open>MsgWaitForMultipleObjects(nCount, pHandles, FALSE, dwTimeout, QS_ALLINPUT)\<close>, with
  \<open>nCount\<close> the length of \<open>handles\<close>. By the documented contract of the call it
  returns \<^verbatim>\<open>WAIT_OBJECT_0 + i\<close> when the object of index \<open>i\<close> is signaled,
  \<^verbatim>\<open>WAIT_OBJECT_0 + nCount\<close> when new input is in the thread's queue, and
  \<^verbatim>\<open>WAIT_TIMEOUT\<close> when the time is over; with an unbounded timeout and nothing
  happening it never returns (\<open>None\<close>). The only waitable object of the model is the
  wake-up event, always passed at index 0. Messages posted meanwhile are in the queue
  when the call returns, whatever ends the wait; a signaled object is reported before
  queue input.
\<close>

definition MsgWaitForMultipleObjects ::
  "HANDLE list \<Rightarrow> DWORD \<Rightarrow> activity \<Rightarrow> state \<Rightarrow> (DWORD \<times> state) option" where
  "MsgWaitForMultipleObjects handles dwTimeout act s =
    (let s1 = emit (WaitCall handles dwTimeout) s;
         s2 = (if act = WakeUp then wakeUp True s1 else s1);
         arrivals = (case act of Input ms \<Rightarrow> ms | _ \<Rightarrow> []);
         s3 = s2\<lparr>queue := queue s2 @ arrivals\<rparr>
     in if handles \<noteq> [] \<and> signaled s3 then Some (WAIT_OBJECT_0, s3)
        else if arrivals \<noteq> [] then Some (WAIT_OBJECT_0 + of_nat (length handles), s3)
        else if dwTimeout = INFINITE then None
        else Some (WAIT_TIMEOUT, s3))"

datatype failure = AssertionFailed | BlocksForever

text \<open>
  The dispatch step at the end of \<open>waitForEvents\<close>: a quit request is taken from the
  queue and nothing is done with it; any other message is translated and dispatched.
\<close>

definition dispatch_step :: "MSG \<Rightarrow> state \<Rightarrow> state" where
  "dispatch_step msg s =
    (if message msg = WM_QUIT then s
     else DispatchMessage msg (emit (Translate msg) s))"

text \<open>
  \<^verbatim>\<open>const DWORD dwTimeout = timeout == -1 ? INFINITE : timeout;\<close> where the
  conversion of an \<^verbatim>\<open>int\<close> to a \<^verbatim>\<open>DWORD\<close> keeps the low 32 bits.
\<close>

definition dwTimeout_of :: "int \<Rightarrow> DWORD" where
  "dwTimeout_of timeout = (if timeout = -1 then INFINITE else word_of_int timeout)"

text \<open>
  \<open>waitForEvents\<close>. \<open>ndebug\<close> says whether the build defines \<^verbatim>\<open>NDEBUG\<close>, which
  turns \<^verbatim>\<open>assert\<close> into nothing; \<open>act\<close> is what happens during the wait, if the
  call gets there. The source tests \<^verbatim>\<open>hasMessage\<close> once, after the wait; here the
  dispatch step stands in each branch in which a poll has returned a message.
\<close>

definition waitForEvents :: "bool \<Rightarrow> int \<Rightarrow> activity \<Rightarrow> state \<Rightarrow> failure + state" where
  "waitForEvents ndebug timeout act s =
    (case PeekMessage s of
       (Some msg, s1) \<Rightarrow> Inr (dispatch_step msg s1)
     | (None, s1) \<Rightarrow>
        (let handles = (case m_wakeUpEvent s1 of None \<Rightarrow> [] | Some h \<Rightarrow> [h]);
             dwTimeout = dwTimeout_of timeout
         in (case MsgWaitForMultipleObjects handles dwTimeout act s1 of
               None \<Rightarrow> Inl BlocksForever
             | Some (waitRet, s2) \<Rightarrow>
                 (if waitRet = WAIT_OBJECT_0
                  then
                    (if \<not> ndebug \<and> m_wakeUpEvent s2 = None then Inl AssertionFailed
                     else Inr (ResetEvent (m_wakeUpEvent s2) s2))
                  else
                    (case PeekMessage s2 of
                       (Some msg, s3) \<Rightarrow> Inr (dispatch_step msg s3)
                     | (None, s3) \<Rightarrow> Inr s3)))))"

section \<open>Reading the trace\<close>



fun delivery_of :: "effect \<Rightarrow> (nat \<times> FileDescriptorNotifier \<times> EventType) list" where
  "delivery_of (Deliver p n e) = [(p, n, e)]"
| "delivery_of _ = []"



text \<open>The occurrences handed to the sink so far: sink, observer, event type.\<close>

definition delivered :: "state \<Rightarrow> (nat \<times> FileDescriptorNotifier \<times> EventType) list" where
  "delivered s = concat (map delivery_of (trace s))"

text \<open>
  The record the registry shows for a descriptor, an absent record reading as one with
  three empty slots.
\<close>

definition recordOf :: "state \<Rightarrow> int \<Rightarrow> NotifierSet" where
  "recordOf s fd = (case m_notifiers s fd of None \<Rightarrow> NotifierSet_default | Some ns \<Rightarrow> ns)"

text \<open>No record of the registry has three empty slots.\<close>

definition noEmptyRecord :: "state \<Rightarrow> bool" where
  "noEmptyRecord s \<longleftrightarrow> (\<forall>fd ns. m_notifiers s fd = Some ns \<longrightarrow> \<not> isEmpty ns)"

section \<open>The mapping policy in the words of the specification\<close>

text \<open>
  The low-level conditions each interest kind covers, as section 4.2 of the specification
  lists them: \<open>Read\<close> covers read-ready, peer closed and incoming connection ready;
  \<open>Write\<close> covers write-ready and connection established; \<open>Exception\<close> covers
  out-of-band data only.
\<close>

definition spec_conditions :: "NotificationType \<Rightarrow> 32 word list" where
  "spec_conditions k =
    (case k of
       Read \<Rightarrow> [FD_READ, FD_CLOSE, FD_ACCEPT]
     | Write \<Rightarrow> [FD_WRITE, FD_CONNECT]
     | Exception \<Rightarrow> [FD_OOB])"

text \<open>The combined mask: the bitwise OR over the conditions of the occupied slots.\<close>

definition spec_mask :: "NotifierSet \<Rightarrow> 32 word" where
  "spec_mask ns =
    foldr (OR) (concat (map spec_conditions (filter (\<lambda>k. events ns k \<noteq> None) [Read, Write, Exception]))) 0"

text \<open>The interest kind a received low-level condition belongs to, if any.\<close>

definition spec_kind :: "32 word \<Rightarrow> NotificationType option" where
  "spec_kind c = find (\<lambda>k. c \<in> set (spec_conditions k)) [Read, Write, Exception]"

section \<open>Example objects\<close>

text \<open>
  Observers on one socket, as in the test \<^verbatim>\<open>can watch a win32 socket\<close>: two read
  observers and a write observer on descriptor 5.
\<close>

definition unregistered :: FileDescriptorNotifier where
  "unregistered = \<lparr>address = 1, fileDescriptor = 5, type = Read\<rparr>"

definition readNotifier :: FileDescriptorNotifier where
  "readNotifier = \<lparr>address = 2, fileDescriptor = 5, type = Read\<rparr>"

definition writeNotifier :: FileDescriptorNotifier where
  "writeNotifier = \<lparr>address = 3, fileDescriptor = 5, type = Write\<rparr>"

text \<open>A loop whose construction succeeded, with a sink set.\<close>

definition loop :: state where
  "loop = setPostman (Some 9) (Win32PlatformEventLoop (Some 1) True (Some 2))"

text \<open>A loop for which \<^verbatim>\<open>CreateEvent\<close> failed: the wake-up handle is null.\<close>

definition degradedLoop :: state where
  "degradedLoop = setPostman (Some 9) (Win32PlatformEventLoop None True (Some 2))"

text \<open>A readiness message for the loop's window, a message for another window, a quit request.\<close>

definition socketMsg :: "int \<Rightarrow> 32 word \<Rightarrow> MSG" where
  "socketMsg fd c = \<lparr>hwnd = Some 2, message = WM_KD_SOCKETEVENT, wParam = word_of_int fd, lParam = ucast c\<rparr>"

definition paintMsg :: MSG where
  "paintMsg = \<lparr>hwnd = Some 7, message = 0x000F, wParam = 0, lParam = 0\<rparr>"


text \<open>
  The registrations of the test \<^verbatim>\<open>can watch a win32 socket\<close>: an observer is registered
  and unregistered again, then the read and the write observer are registered.
\<close>

definition afterSetup :: state where
  "afterSetup =
    snd (registerNotifier (Some writeNotifier)
      (snd (registerNotifier (Some readNotifier)
        (snd (unregisterNotifier (Some unregistered)
          (snd (registerNotifier (Some unregistered) loop)))))))"

text \<open>One more \<^verbatim>\<open>loop.waitForEvents(1000)\<close> after a run that returned.\<close>

definition then_wait :: "activity \<Rightarrow> failure + state \<Rightarrow> failure + state" where
  "then_wait act r = (case r of Inl e \<Rightarrow> Inl e | Inr s \<Rightarrow> waitForEvents False 1000 act s)"

section \<open>Basic facts\<close>

lemmas example_defs = unregistered_def readNotifier_def writeNotifier_def loop_def
  degradedLoop_def setPostman_def Win32PlatformEventLoop_def emit_def

lemma isEmpty_default: "isEmpty NotifierSet_default"
  by (simp add: isEmpty_def NotifierSet_default_def)

lemma isEmpty_iff_default: "isEmpty ns \<longleftrightarrow> ns = NotifierSet_default"
proof
  assume e: "isEmpty ns"
  have "events ns = (\<lambda>_. None)"
  proof
    fix k
    show "events ns k = None"
      using e by (cases k) (simp_all add: isEmpty_def)
  qed
  then show "ns = NotifierSet_default"
    by (simp add: NotifierSet_default_def)
next
  assume "ns = NotifierSet_default"
  then show "isEmpty ns"
    by (simp add: isEmpty_default)
qed

text \<open>The example loop after the write observer has been registered.\<close>

lemma after_write_registration:
  "(snd (registerNotifier (Some writeNotifier) loop))\<lparr>wsaResults := rs\<rparr> =
   loop\<lparr>m_notifiers := [5 \<mapsto> \<lparr>events = (\<lambda>_. None)(Write := Some writeNotifier)\<rparr>],
     wsaResults := rs, trace := [WSAAsyncSelectCall 5 (Some 2) WM_KD_SOCKETEVENT 0x12]\<rparr>"
  by (simp add: registerNotifier_def subscript_def example_defs NotifierSet_default_def Let_def
      registerWithWSAAsyncSelect_def eventsToSubscribe_def typeToWsaEvents_def FD_WRITE_def
      FD_CONNECT_def)

lemma spec_kind_cases:
  "spec_kind c =
    (if c = FD_READ \<or> c = FD_CLOSE \<or> c = FD_ACCEPT then Some Read
     else if c = FD_WRITE \<or> c = FD_CONNECT then Some Write
     else if c = FD_OOB then Some Exception else None)"
  by (auto simp: spec_kind_def spec_conditions_def)

text \<open>What \<open>handleSocketMessage\<close> adds to the trace.\<close>

lemma handleSocketMessage_trace:
  "trace (handleSocketMessage wparam lparam s) = trace s @
     (if WSAGETSELECTERROR lparam \<noteq> 0
      then [Log Warn ''Error when receiving message on socket {}, Err = {}'']
      else case m_postman s of
        None \<Rightarrow> [Log Warn ''No postman set. Cannot deliver events'']
      | Some sink \<Rightarrow>
         (case spec_kind (WSAGETSELECTEVENT lparam) of
            None \<Rightarrow> []
          | Some k \<Rightarrow>
             (case events (recordOf s (sockId_of wparam)) k of
                None \<Rightarrow> []
              | Some observer \<Rightarrow> [Deliver sink observer Notifier])))"
  by (auto simp: handleSocketMessage_def spec_kind_cases subscript_def recordOf_def Let_def
      deliverEvent_def emit_def NotifierSet_default_def FD_READ_def FD_WRITE_def FD_OOB_def
      FD_ACCEPT_def FD_CONNECT_def FD_CLOSE_def
      split: option.splits prod.splits)

text \<open>A registration that succeeds leaves the observer in its slot.\<close>

lemma registerNotifier_success_occupies:
  assumes "registerNotifier (Some n) s = (True, s')"
  shows "0 \<le> fileDescriptor n \<and> events (recordOf s' (fileDescriptor n)) (type n) = Some n"
  using assms
  by (auto simp: registerNotifier_def subscript_def recordOf_def Let_def
      registerWithWSAAsyncSelect_def emit_def split: prod.splits option.splits if_splits list.splits)

text \<open>
  Unregistering from a free slot: with a record present nothing changes; with no record
  the subscript operator leaves a default record behind.
\<close>

lemma unregisterNotifier_free_slot:
  assumes "m_notifiers s (fileDescriptor n) = Some ns" and "events ns (type n) = None"
  shows "unregisterNotifier (Some n) s = (False, s)"
  using assms by (simp add: unregisterNotifier_def subscript_def)

lemma unregisterNotifier_no_record:
  assumes "m_notifiers s (fileDescriptor n) = None"
  shows "unregisterNotifier (Some n) s =
    (False, s\<lparr>m_notifiers := (m_notifiers s)(fileDescriptor n \<mapsto> NotifierSet_default)\<rparr>)"
  using assms by (simp add: unregisterNotifier_def subscript_def NotifierSet_default_def)

text \<open>The example loop after the read observer has been registered.\<close>

lemma after_read_registration:
  "snd (registerNotifier (Some readNotifier) loop) =
   loop\<lparr>m_notifiers := [5 \<mapsto> \<lparr>events = (\<lambda>_. None)(Read := Some readNotifier)\<rparr>],
     trace := [WSAAsyncSelectCall 5 (Some 2) WM_KD_SOCKETEVENT 0x29]\<rparr>"
  by (simp add: registerNotifier_def subscript_def example_defs NotifierSet_default_def Let_def
      registerWithWSAAsyncSelect_def eventsToSubscribe_def typeToWsaEvents_def FD_READ_def
      FD_CLOSE_def FD_ACCEPT_def)

lemma events_default: "events NotifierSet_default k = None"
  by (simp add: NotifierSet_default_def)

lemma occupied_not_empty: "events ns k = Some n \<Longrightarrow> \<not> isEmpty ns"
  by (cases k) (simp_all add: isEmpty_def)

lemma registerWithWSAAsyncSelect_notifiers:
  "m_notifiers (snd (registerWithWSAAsyncSelect fd ns s)) = m_notifiers s"
  by (simp add: registerWithWSAAsyncSelect_def Let_def emit_def)

text \<open>
  Registration keeps the registry free of records with three empty slots, and so does
  unregistering from an occupied slot.
\<close>

lemma registerNotifier_noEmptyRecord:
  assumes inv: "noEmptyRecord s"
  shows "noEmptyRecord (snd (registerNotifier notifier s))"
proof (cases notifier)
  case None
  then show ?thesis
    using inv by (simp add: registerNotifier_def)
next
  case (Some n)
  have upd: "\<not> isEmpty (ns\<lparr>events := (events ns)(type n \<mapsto> n)\<rparr>)" for ns
    by (rule occupied_not_empty [where k = "type n" and n = n]) simp
  show ?thesis
  proof (cases "m_notifiers s (fileDescriptor n)")
    case None
    then show ?thesis
      using inv Some upd
      by (auto simp: registerNotifier_def subscript_def Let_def noEmptyRecord_def
          case_prod_beta registerWithWSAAsyncSelect_notifiers emit_def events_default)
  next
    case ns: (Some ns)
    then have "\<not> isEmpty ns"
      using inv by (simp add: noEmptyRecord_def)
    then show ?thesis
      using inv Some ns upd
      by (auto simp: registerNotifier_def subscript_def Let_def noEmptyRecord_def
          case_prod_beta registerWithWSAAsyncSelect_notifiers emit_def)
  qed
qed

lemma unregisterNotifier_occupied_noEmptyRecord:
  assumes inv: "noEmptyRecord s"
    and rec: "m_notifiers s (fileDescriptor n) = Some ns"
    and occ: "events ns (type n) = Some occupant"
  shows "noEmptyRecord (snd (unregisterNotifier (Some n) s))"
  using assms
  by (auto simp: unregisterNotifier_def subscript_def Let_def noEmptyRecord_def
      case_prod_beta registerWithWSAAsyncSelect_notifiers)










text \<open>
  With a null wake-up handle, input arriving during the wait makes the wait return
  \<^verbatim>\<open>WAIT_OBJECT_0 + 0\<close>, which the code takes for the wake-up event.
\<close>

lemma waitForEvents_null_handle:
  assumes "m_wakeUpEvent s = None" and "queue s = []"
  shows "waitForEvents False timeout (Input (m # ms)) s = Inl AssertionFailed"
    and "waitForEvents True timeout (Input (m # ms)) s =
          Inr (ResetEvent None ((emit (WaitCall [] (dwTimeout_of timeout)) s)\<lparr>queue := m # ms\<rparr>))"
  using assms
  by (simp_all add: waitForEvents_def PeekMessage_def MsgWaitForMultipleObjects_def Let_def
      WAIT_OBJECT_0_def emit_def)







lemma timeout_facts:
  "dwTimeout_of 1000 = 1000" "dwTimeout_of 0 = 0" "dwTimeout_of (-1) = INFINITE"
  "(1000::32 word) \<noteq> INFINITE" "(0::32 word) \<noteq> INFINITE"
  by (simp_all add: dwTimeout_of_def INFINITE_def)


text \<open>
  The model replays the test \<^verbatim>\<open>can watch a win32 socket\<close>: after the registrations,
  three calls of \<open>waitForEvents\<close> that meet \<^verbatim>\<open>FD_CONNECT\<close>, \<^verbatim>\<open>FD_WRITE\<close> and
  \<^verbatim>\<open>FD_READ\<close> for the socket trigger the write observer twice and the read observer
  once, and never the observer that was unregistered.
\<close>

lemma afterSetup_eq:
  "afterSetup = loop\<lparr>m_notifiers :=
       [5 \<mapsto> \<lparr>events = (\<lambda>_. None)(Read := Some readNotifier, Write := Some writeNotifier)\<rparr>],
     trace := [WSAAsyncSelectCall 5 (Some 2) WM_KD_SOCKETEVENT 0x29,
               WSAAsyncSelectCall 5 (Some 2) WM_KD_SOCKETEVENT 0,
               WSAAsyncSelectCall 5 (Some 2) WM_KD_SOCKETEVENT 0x29,
               WSAAsyncSelectCall 5 (Some 2) WM_KD_SOCKETEVENT 0x3B]\<rparr>"
  by (simp add: afterSetup_def registerNotifier_def unregisterNotifier_def subscript_def
      example_defs NotifierSet_default_def Let_def isEmpty_def registerWithWSAAsyncSelect_def
      eventsToSubscribe_def typeToWsaEvents_def FD_READ_def FD_CLOSE_def FD_ACCEPT_def
      FD_WRITE_def FD_CONNECT_def FD_OOB_def)

lemma socket_test_replayed:
  "\<exists>s. then_wait (Input [socketMsg 5 FD_READ])
         (then_wait (Input [socketMsg 5 FD_WRITE])
           (then_wait (Input [socketMsg 5 FD_CONNECT]) (Inr afterSetup))) = Inr s
      \<and> delivered s =
          [(9, writeNotifier, Notifier), (9, writeNotifier, Notifier), (9, readNotifier, Notifier)]"
  unfolding afterSetup_eq
  by (simp add: then_wait_def waitForEvents_def PeekMessage_def MsgWaitForMultipleObjects_def
      Let_def dwTimeout_of_def INFINITE_def WAIT_OBJECT_0_def dispatch_step_def
      DispatchMessage_def messageWindowProc_def handleSocketMessage_def subscript_def
      deliverEvent_def socketMsg_def WM_QUIT_def WM_KD_SOCKETEVENT_def WM_USER_def sockId_of_def
      WSAGETSELECTERROR_def WSAGETSELECTEVENT_def FD_READ_def FD_CLOSE_def FD_ACCEPT_def
      FD_WRITE_def FD_CONNECT_def FD_OOB_def example_defs delivered_def)

section \<open>Unregistering what was never registered\<close>

text \<open>
  C1. The claim: unregistering an observer whose descriptor has no record returns false
  and leaves the registry unchanged, its number of records included. The code returns
  false, but \<^verbatim>\<open>m_notifiers[notifier->fileDescriptor()]\<close> has by then inserted a record
  with three empty slots, and the early return skips the \<^verbatim>\<open>erase\<close> that the other
  paths perform. On a fresh loop, unregistering an observer of descriptor 5 takes the
  registry from no record to one record.
\<close>

theorem unregisterNotifier_unknown_inserts_record:
  "fst (unregisterNotifier (Some unregistered) loop) = False
   \<and> m_notifiers loop = Map.empty
   \<and> m_notifiers (snd (unregisterNotifier (Some unregistered) loop)) = [5 \<mapsto> NotifierSet_default]
   \<and> card (dom (m_notifiers loop)) = 0
   \<and> card (dom (m_notifiers (snd (unregisterNotifier (Some unregistered) loop)))) = 1"
  by (simp add: unregisterNotifier_def subscript_def example_defs NotifierSet_default_def Let_def)

section \<open>Rollback of a failed registration\<close>

text \<open>
  C3. For a valid observer (non-null, descriptor not negative) whose slot is free, so that
  the subscribe call is reached: if that call fails, \<open>registerNotifier\<close> returns false;
  the snapshot taken before the call is restored, and the record is removed when the
  restored record has three empty slots. Every descriptor then shows the record it showed
  before the call, and a registry that held no empty record is the same map as before.
\<close>

theorem registerNotifier_rollback:
  assumes fd: "0 \<le> fileDescriptor n"
    and free: "events (recordOf s (fileDescriptor n)) (type n) = None"
    and fails: "wsaResults s = r # rs" "r \<noteq> 0"
  shows "fst (registerNotifier (Some n) s) = False
    \<and> m_notifiers (snd (registerNotifier (Some n) s)) =
        (if isEmpty (recordOf s (fileDescriptor n))
         then (m_notifiers s)(fileDescriptor n := None) else m_notifiers s)
    \<and> (\<forall>fd. recordOf (snd (registerNotifier (Some n) s)) fd = recordOf s fd)
    \<and> (noEmptyRecord s \<longrightarrow> m_notifiers (snd (registerNotifier (Some n) s)) = m_notifiers s)"
proof (cases "m_notifiers s (fileDescriptor n)")
  case None
  then show ?thesis
    using assms
    by (auto simp: registerNotifier_def subscript_def recordOf_def Let_def isEmpty_default
        registerWithWSAAsyncSelect_def emit_def split: prod.splits)
next
  case (Some ns)
  then show ?thesis
    using assms
    by (auto simp: registerNotifier_def subscript_def recordOf_def Let_def isEmpty_iff_default
        registerWithWSAAsyncSelect_def emit_def noEmptyRecord_def split: prod.splits)
qed

theorem registerNotifier_rollback_witness:
  "fst (registerNotifier (Some readNotifier)
        ((snd (registerNotifier (Some writeNotifier) loop))\<lparr>wsaResults := [-1]\<rparr>)) = False
   \<and> m_notifiers (snd (registerNotifier (Some readNotifier)
        ((snd (registerNotifier (Some writeNotifier) loop))\<lparr>wsaResults := [-1]\<rparr>)))
      = [5 \<mapsto> \<lparr>events = (\<lambda>_. None)(Write := Some writeNotifier)\<rparr>]
   \<and> fst (registerNotifier (Some readNotifier) (loop\<lparr>wsaResults := [-1]\<rparr>)) = False
   \<and> m_notifiers (snd (registerNotifier (Some readNotifier) (loop\<lparr>wsaResults := [-1]\<rparr>))) = Map.empty"
proof -
  let ?s = "(snd (registerNotifier (Some writeNotifier) loop))\<lparr>wsaResults := [-1]\<rparr>"
  let ?t = "loop\<lparr>wsaResults := [-1]\<rparr>"
  have a: "0 \<le> fileDescriptor readNotifier"
    by (simp add: readNotifier_def)
  have b: "events (recordOf ?s (fileDescriptor readNotifier)) (type readNotifier) = None"
    unfolding after_write_registration by (simp add: recordOf_def example_defs)
  have c: "wsaResults ?s = (-1) # []"
    by simp
  have d: "(-1::int) \<noteq> 0"
    by simp
  have e: "\<not> isEmpty (recordOf ?s (fileDescriptor readNotifier))"
    unfolding after_write_registration by (simp add: recordOf_def example_defs isEmpty_def)
  have m: "m_notifiers ?s = [5 \<mapsto> \<lparr>events = (\<lambda>_. None)(Write := Some writeNotifier)\<rparr>]"
    unfolding after_write_registration by (simp add: example_defs)
  have b': "events (recordOf ?t (fileDescriptor readNotifier)) (type readNotifier) = None"
    by (simp add: recordOf_def example_defs NotifierSet_default_def)
  have c': "wsaResults ?t = (-1) # []"
    by simp
  have m': "m_notifiers ?t = Map.empty"
    by (simp add: example_defs)
  show ?thesis
    using registerNotifier_rollback [OF a b c d] registerNotifier_rollback [OF a b' c' d] e m m'
    by (simp add: recordOf_def)
qed

section \<open>Records with three empty slots\<close>

text \<open>
  C2. The claim: the registry never holds a record whose three slots are all empty. The
  code breaks it wherever it only looks a descriptor up, because the lookup is
  \<^verbatim>\<open>m_notifiers[...]\<close>: a readiness message for descriptor 7, which has no record,
  reaches \<^verbatim>\<open>const auto &notifierSet = m_notifiers[sockId]\<close> and leaves a record with
  three empty slots in a registry that had none; nothing is delivered or logged.
\<close>

theorem handleSocketMessage_unknown_inserts_empty_record:
  "m_notifiers loop = Map.empty
   \<and> m_notifiers (handleSocketMessage 7 1 loop) = [7 \<mapsto> NotifierSet_default]
   \<and> isEmpty NotifierSet_default
   \<and> trace (handleSocketMessage 7 1 loop) = trace loop"
  by (simp add: handleSocketMessage_def subscript_def example_defs Let_def sockId_of_def
      WSAGETSELECTERROR_def WSAGETSELECTEVENT_def FD_READ_def deliverEvent_def isEmpty_def
      NotifierSet_default_def)

section \<open>The mapping between interest kinds and low-level conditions\<close>

text \<open>
  C5. \<open>Read\<close> stands for read-ready, peer closed and incoming connection ready,
  \<open>Write\<close> for write-ready and connection established, \<open>Exception\<close> for
  out-of-band data only. The mask the code subscribes with is the bitwise OR of these
  over the occupied slots, as the specification's policy gives it; it is zero exactly for
  a record with three empty slots. A received readiness message is routed by the same
  policy: the occurrence goes to the observer in the slot of the kind its condition
  belongs to, and to nobody when the condition belongs to no kind.
\<close>

theorem interest_kind_mapping:
  "typeToWsaEvents Read = FD_READ OR FD_CLOSE OR FD_ACCEPT
   \<and> typeToWsaEvents Write = FD_WRITE OR FD_CONNECT
   \<and> typeToWsaEvents Exception = FD_OOB
   \<and> eventsToSubscribe ns = spec_mask ns
   \<and> eventsToSubscribe ns =
       (if events ns Read \<noteq> None then typeToWsaEvents Read else 0)
       OR (if events ns Write \<noteq> None then typeToWsaEvents Write else 0)
       OR (if events ns Exception \<noteq> None then typeToWsaEvents Exception else 0)
   \<and> (eventsToSubscribe ns = 0) = isEmpty ns
   \<and> delivered (handleSocketMessage wparam lparam s) = delivered s @
       (if WSAGETSELECTERROR lparam \<noteq> 0 then []
        else case m_postman s of
          None \<Rightarrow> []
        | Some sink \<Rightarrow>
           (case spec_kind (WSAGETSELECTEVENT lparam) of
              None \<Rightarrow> []
            | Some k \<Rightarrow>
               (case events (recordOf s (sockId_of wparam)) k of
                  None \<Rightarrow> []
                | Some observer \<Rightarrow> [(sink, observer, Notifier)])))"
proof -
  have m: "eventsToSubscribe ns = spec_mask ns"
    by (simp add: eventsToSubscribe_def spec_mask_def spec_conditions_def typeToWsaEvents_def
        ac_simps)
  have e: "eventsToSubscribe ns =
       (if events ns Read \<noteq> None then typeToWsaEvents Read else 0)
       OR (if events ns Write \<noteq> None then typeToWsaEvents Write else 0)
       OR (if events ns Exception \<noteq> None then typeToWsaEvents Exception else 0)"
    by (simp add: eventsToSubscribe_def ac_simps)
  have z: "(eventsToSubscribe ns = 0) = isEmpty ns"
    by (simp add: eventsToSubscribe_def isEmpty_def typeToWsaEvents_def FD_READ_def
        FD_WRITE_def FD_OOB_def FD_ACCEPT_def FD_CONNECT_def FD_CLOSE_def)
  have d: "delivered (handleSocketMessage wparam lparam s) = delivered s @
       (if WSAGETSELECTERROR lparam \<noteq> 0 then []
        else case m_postman s of
          None \<Rightarrow> []
        | Some sink \<Rightarrow>
           (case spec_kind (WSAGETSELECTEVENT lparam) of
              None \<Rightarrow> []
            | Some k \<Rightarrow>
               (case events (recordOf s (sockId_of wparam)) k of
                  None \<Rightarrow> []
                | Some observer \<Rightarrow> [(sink, observer, Notifier)])))"
    by (simp add: delivered_def handleSocketMessage_trace split: option.splits)
  show ?thesis
    using m e z d by (simp add: typeToWsaEvents_def)
qed

section \<open>A second registration for an occupied slot\<close>

text \<open>
  C6. When the slot of a valid observer's descriptor and kind is already occupied by a
  first observer, \<open>registerNotifier\<close> returns false and changes nothing at all, so the
  first observer stays in the slot; a later readiness message without error for that
  descriptor, with a condition of that kind and a sink set, is delivered to the first
  observer.
\<close>

theorem registerNotifier_duplicate:
  assumes fd: "0 \<le> fileDescriptor n2"
    and rec: "m_notifiers s (fileDescriptor n2) = Some ns"
    and occ: "events ns (type n2) = Some n1"
  shows "registerNotifier (Some n2) s = (False, s)
    \<and> (\<forall>sink wparam lparam.
          m_postman s = Some sink \<and> WSAGETSELECTERROR lparam = 0
          \<and> sockId_of wparam = fileDescriptor n2
          \<and> spec_kind (WSAGETSELECTEVENT lparam) = Some (type n2)
          \<longrightarrow> trace (handleSocketMessage wparam lparam (snd (registerNotifier (Some n2) s)))
              = trace s @ [Deliver sink n1 Notifier])"
proof -
  have r: "registerNotifier (Some n2) s = (False, s)"
    using assms by (simp add: registerNotifier_def subscript_def Let_def)
  show ?thesis
    unfolding r using rec occ
    by (auto simp: handleSocketMessage_trace recordOf_def)
qed

theorem registerNotifier_duplicate_witness:
  "fst (registerNotifier (Some readNotifier) loop) = True
   \<and> registerNotifier (Some unregistered) (snd (registerNotifier (Some readNotifier) loop))
       = (False, snd (registerNotifier (Some readNotifier) loop))
   \<and> trace (handleSocketMessage 5 1
        (snd (registerNotifier (Some unregistered) (snd (registerNotifier (Some readNotifier) loop)))))
       = trace (snd (registerNotifier (Some readNotifier) loop)) @ [Deliver 9 readNotifier Notifier]"
proof -
  let ?s = "snd (registerNotifier (Some readNotifier) loop)"
  let ?ns = "\<lparr>events = (\<lambda>_. None)(Read := Some readNotifier)\<rparr>"
  have ok: "fst (registerNotifier (Some readNotifier) loop) = True"
    by (simp add: registerNotifier_def subscript_def example_defs NotifierSet_default_def Let_def
        registerWithWSAAsyncSelect_def)
  have a: "0 \<le> fileDescriptor unregistered"
    by (simp add: unregistered_def)
  have b: "m_notifiers ?s (fileDescriptor unregistered) = Some ?ns"
    unfolding after_read_registration by (simp add: example_defs)
  have c: "events ?ns (type unregistered) = Some readNotifier"
    by (simp add: unregistered_def)
  have d: "m_postman ?s = Some 9 \<and> WSAGETSELECTERROR 1 = 0
          \<and> sockId_of 5 = fileDescriptor unregistered
          \<and> spec_kind (WSAGETSELECTEVENT 1) = Some (type unregistered)"
    unfolding after_read_registration
    by (simp add: example_defs WSAGETSELECTERROR_def WSAGETSELECTEVENT_def sockId_of_def
        spec_kind_cases FD_READ_def)
  show ?thesis
    using registerNotifier_duplicate [OF a b c] d ok by blast
qed

section \<open>Unregistering an occupied slot\<close>

text \<open>
  C7. When the slot of the observer's descriptor and kind is occupied, \<open>unregisterNotifier\<close>
  returns true whatever the subscription call returns: the slot is cleared, the record is
  removed when that leaves it with three empty slots, and exactly one subscription call
  is made, with the mask recomputed from the cleared record; a failure of that call only
  adds a log line.
\<close>

theorem unregisterNotifier_occupied:
  assumes rec: "m_notifiers s (fileDescriptor n) = Some ns"
    and occ: "events ns (type n) = Some occupant"
  shows "fst (unregisterNotifier (Some n) s) = True
    \<and> m_notifiers (snd (unregisterNotifier (Some n) s)) =
        (if isEmpty (ns\<lparr>events := (events ns)(type n := None)\<rparr>)
         then (m_notifiers s)(fileDescriptor n := None)
         else (m_notifiers s)(fileDescriptor n \<mapsto> ns\<lparr>events := (events ns)(type n := None)\<rparr>))
    \<and> trace (snd (unregisterNotifier (Some n) s)) =
        trace s @ WSAAsyncSelectCall (fileDescriptor n) (m_msgWindow s) WM_KD_SOCKETEVENT
                    (eventsToSubscribe (ns\<lparr>events := (events ns)(type n := None)\<rparr>))
          # (case wsaResults s of [] \<Rightarrow> [] | r # _ \<Rightarrow>
               if r \<noteq> 0 then [Log Error ''Failed to register notifier for socket = {}. Error = {}''] else [])"
  using assms
  by (auto simp: unregisterNotifier_def subscript_def Let_def registerWithWSAAsyncSelect_def
      emit_def split: prod.splits list.splits)

theorem unregisterNotifier_occupied_witness:
  "fst (unregisterNotifier (Some writeNotifier)
         ((snd (registerNotifier (Some writeNotifier) loop))\<lparr>wsaResults := [-1]\<rparr>)) = True
   \<and> m_notifiers (snd (unregisterNotifier (Some writeNotifier)
         ((snd (registerNotifier (Some writeNotifier) loop))\<lparr>wsaResults := [-1]\<rparr>))) = Map.empty
   \<and> trace (snd (unregisterNotifier (Some writeNotifier)
         ((snd (registerNotifier (Some writeNotifier) loop))\<lparr>wsaResults := [-1]\<rparr>))) =
       [WSAAsyncSelectCall 5 (Some 2) WM_KD_SOCKETEVENT 0x12,
        WSAAsyncSelectCall 5 (Some 2) WM_KD_SOCKETEVENT 0,
        Log Error ''Failed to register notifier for socket = {}. Error = {}'']"
proof -
  let ?s = "(snd (registerNotifier (Some writeNotifier) loop))\<lparr>wsaResults := [-1]\<rparr>"
  let ?ns = "\<lparr>events = (\<lambda>_. None)(Write := Some writeNotifier)\<rparr>"
  have a: "m_notifiers ?s (fileDescriptor writeNotifier) = Some ?ns"
    unfolding after_write_registration by (simp add: example_defs)
  have b: "events ?ns (type writeNotifier) = Some writeNotifier"
    by (simp add: writeNotifier_def)
  have e: "isEmpty (?ns\<lparr>events := (events ?ns)(type writeNotifier := None)\<rparr>)"
    by (simp add: isEmpty_def writeNotifier_def)
  have m: "eventsToSubscribe (?ns\<lparr>events := (events ?ns)(type writeNotifier := None)\<rparr>) = 0"
    by (simp add: eventsToSubscribe_def writeNotifier_def)
  show ?thesis
    using unregisterNotifier_occupied [OF a b] e m
    unfolding after_write_registration
    by (simp add: example_defs)
qed

section \<open>Readiness dispatch\<close>

text \<open>
  C8. \<open>handleSocketMessage\<close> is a total function: it raises nothing. A message with a
  nonzero error code adds one warning to the trace and nothing else; with no sink set it
  adds one warning and nothing else; with the slot of the mapped kind empty, or a
  condition that maps to no kind, it adds nothing; and only with error code zero, a sink
  set and the slot occupied it adds exactly one delivery of a notifier occurrence to the
  sink, together with the observer in the slot. The records the registry shows are the
  same afterwards.
\<close>

theorem handleSocketMessage_drops_or_delivers:
  "trace (handleSocketMessage wparam lparam s) = trace s @
     (if WSAGETSELECTERROR lparam \<noteq> 0
      then [Log Warn ''Error when receiving message on socket {}, Err = {}'']
      else case m_postman s of
        None \<Rightarrow> [Log Warn ''No postman set. Cannot deliver events'']
      | Some sink \<Rightarrow>
         (case spec_kind (WSAGETSELECTEVENT lparam) of
            None \<Rightarrow> []
          | Some k \<Rightarrow>
             (case events (recordOf s (sockId_of wparam)) k of
                None \<Rightarrow> []
              | Some observer \<Rightarrow> [Deliver sink observer Notifier])))
   \<and> (delivered (handleSocketMessage wparam lparam s) \<noteq> delivered s) =
       (WSAGETSELECTERROR lparam = 0 \<and> m_postman s \<noteq> None
        \<and> (\<exists>k observer. spec_kind (WSAGETSELECTEVENT lparam) = Some k
              \<and> events (recordOf s (sockId_of wparam)) k = Some observer))
   \<and> length (delivered (handleSocketMessage wparam lparam s)) \<le> length (delivered s) + 1
   \<and> (\<forall>fd. recordOf (handleSocketMessage wparam lparam s) fd = recordOf s fd)"
proof -
  have r: "recordOf (handleSocketMessage wparam lparam s) fd = recordOf s fd" for fd
    by (auto simp: handleSocketMessage_def subscript_def recordOf_def Let_def
        deliverEvent_def emit_def split: option.splits prod.splits)
  show ?thesis
    by (auto simp: handleSocketMessage_trace delivered_def r split: option.splits)
qed

section \<open>The wait cycle\<close>



section \<open>Waking the loop\<close>




section \<open>A loop without wake-up event\<close>

text \<open>
  C10. The claim: with a null wake-up handle every \<open>waitForEvents\<close> call runs safely,
  waiting with zero handles, and \<open>wakeUp\<close> is a silent no-op. \<open>wakeUp\<close> does leave
  the state as it is, and a wait that times out is harmless. But when a message arrives
  during the wait, the wait over zero handles reports it as \<^verbatim>\<open>WAIT_OBJECT_0 + 0\<close>, and
  the code takes that for the wake-up event: \<^verbatim>\<open>assert(m_wakeUpEvent)\<close> fails, and in a
  build with \<^verbatim>\<open>NDEBUG\<close> \<^verbatim>\<open>ResetEvent\<close> is called on the null handle and the message
  stays in the queue, not dispatched.
\<close>

theorem waitForEvents_null_handle_assertion:
  "m_wakeUpEvent degradedLoop = None
   \<and> wakeUp True degradedLoop = degradedLoop
   \<and> wakeUp False degradedLoop = degradedLoop
   \<and> waitForEvents False 1000 Quiet degradedLoop = Inr (emit (WaitCall [] 1000) degradedLoop)
   \<and> waitForEvents False 1000 (Input [paintMsg]) degradedLoop = Inl AssertionFailed
   \<and> waitForEvents True 1000 (Input [paintMsg]) degradedLoop =
       Inr ((emit (ResetEventCall None) (emit (WaitCall [] 1000) degradedLoop))\<lparr>queue := [paintMsg]\<rparr>)"
  by (simp add: waitForEvents_def PeekMessage_def wakeUp_def MsgWaitForMultipleObjects_def
      Let_def timeout_facts WAIT_OBJECT_0_def WAIT_TIMEOUT_def ResetEvent_def example_defs)

end
